theory Spec2Isabelle
  imports Complex_Main "HOL-Library.Option_ord" "HOL-Library.Sublist" "HOL-Library.Multiset"
begin

unbundle bit_operations_syntax

section \<open>Corn Frost App: the click-to-chart pipeline of \<^verbatim>\<open>corn_frost_app.js\<close>\<close>

text \<open>
  The script runs in the Earth Engine Code Editor. Its own logic is the function
  \<^verbatim>\<open>showTimeSeries\<close> (the map click handler), the callback it passes to
  \<^verbatim>\<open>evaluate\<close> and the chart's click handler. Everything is modelled at the clicked
  point: an image is the list of its bands with the pixel of each band at that point, and
  its metadata properties. A masked pixel is \<open>None\<close>. JavaScript numbers and Earth
  Engine floating point values are idealised as real numbers.
\<close>

subsection \<open>JavaScript values\<close>

datatype jsval = Num real | Null | Undefined

text \<open>\<^verbatim>\<open>v === n\<close> for a number literal \<open>n\<close>: no coercion, so \<^verbatim>\<open>null\<close> and
  \<^verbatim>\<open>undefined\<close> are never equal to a number.\<close>

definition strict_eq :: "jsval \<Rightarrow> real \<Rightarrow> bool" where
  "strict_eq v n = (v = Num n)"


text \<open>A plain object; \<^verbatim>\<open>obj[k]\<close> of a key it has not is \<^verbatim>\<open>undefined\<close>.\<close>

type_synonym dict = "(string \<times> jsval) list"

definition get_key :: "dict \<Rightarrow> string \<Rightarrow> jsval" where
  "get_key obj k = (case map_of obj k of None \<Rightarrow> Undefined | Some v \<Rightarrow> v)"

datatype error =
  BandNotFound string   \<comment> \<open>Earth Engine: a band selected by name is not in the image\<close>
| TypeError             \<comment> \<open>JavaScript: a property read of \<^verbatim>\<open>undefined\<close>\<close>

subsection \<open>Classification of the clicked pixel (callback, lines 251-286)\<close>

text \<open>\<open>statusText\<close> and \<open>lineColor\<close> as the \<^verbatim>\<open>if\<close> chain assigns them.\<close>

definition isCorn :: "jsval \<Rightarrow> bool" where
  "isCorn cornVal = strict_eq cornVal 2"

definition classify :: "jsval \<Rightarrow> jsval \<Rightarrow> string \<times> string" where
  "classify cornVal frostVal =
     (if \<not> isCorn cornVal then (''No corn mask'', ''black'')
      else if strict_eq frostVal 1 then (''Harvested'', ''#00FFFF'')
      else if strict_eq frostVal 2 then (''Affected by Frost: May 25'', ''#FF00FF'')
      else if strict_eq frostVal 3 then (''Affected by Frost: June 30'', ''#0000FF'')
      else if strict_eq frostVal 4 then (''Not Affected'', ''#008000'')
      else (''Unknown Class'', ''gray''))"

definition isFrostEvent :: "jsval \<Rightarrow> jsval \<Rightarrow> bool" where
  "isFrostEvent cornVal frostVal =
     (isCorn cornVal \<and> (strict_eq frostVal 2 \<or> strict_eq frostVal 3))"

subsection \<open>Earth Engine images at the clicked point\<close>

text \<open>
  The Earth Engine client library is not part of the repository. Each operation the script
  calls is modelled by what its API documentation says it does to one pixel and to the
  image's properties. Band values of the Sentinel-2 archive are unsigned integers (digital
  numbers), so an archive image is a \<open>nat image\<close>; computed images are \<open>real image\<close>s.
  Properties are numbers; the script reads and writes \<open>system:time_start\<close> and filters on
  \<open>CLOUDY_PIXEL_PERCENTAGE\<close>.
\<close>

record 'v image =
  bands :: "(string \<times> 'v option) list"
  props :: "(string \<times> real) list"

text \<open>Reading a band by name; Earth Engine fails when the image has no such band.\<close>

definition band :: "'v image \<Rightarrow> string \<Rightarrow> error + 'v option" where
  "band img n = (case map_of (bands img) n of None \<Rightarrow> Inl (BandNotFound n) | Some p \<Rightarrow> Inr p)"

definition get_prop :: "'v image \<Rightarrow> string \<Rightarrow> real option" where
  "get_prop img k = map_of (props img) k"

definition time_start :: "'v image \<Rightarrow> real option" where
  "time_start img = get_prop img ''system:time_start''"

text \<open>Per-pixel operators: the result is masked where an input is masked.\<close>

definition bitwiseAnd :: "nat option \<Rightarrow> nat \<Rightarrow> nat option" where
  "bitwiseAnd p c = map_option (\<lambda>v. v AND c) p"

definition eq_px :: "nat option \<Rightarrow> nat \<Rightarrow> nat option" where
  "eq_px p c = map_option (\<lambda>v. if v = c then 1 else 0) p"

definition and_px :: "nat option \<Rightarrow> nat option \<Rightarrow> nat option" where
  "and_px p q =
     (case (p, q) of
        (Some a, Some b) \<Rightarrow> Some (if a \<noteq> 0 \<and> b \<noteq> 0 then 1 else 0)
      | _ \<Rightarrow> None)"

text \<open>\<^verbatim>\<open>updateMask\<close>: every band is masked where the mask is zero (or itself masked).\<close>

definition keep_px :: "nat option \<Rightarrow> bool" where
  "keep_px m = (case m of Some v \<Rightarrow> v \<noteq> 0 | None \<Rightarrow> False)"

definition updateMask :: "'v image \<Rightarrow> nat option \<Rightarrow> 'v image" where
  "updateMask img m =
     img\<lparr>bands := map (\<lambda>(n, p). (n, if keep_px m then p else None)) (bands img)\<rparr>"

text \<open>\<^verbatim>\<open>divide\<close> by a constant: band names stay, the values become floating point, the
  properties of the input are not carried over.\<close>

definition divide :: "nat image \<Rightarrow> real \<Rightarrow> real image" where
  "divide img c =
     \<lparr>bands = map (\<lambda>(n, p). (n, map_option (\<lambda>v. real v / c) p)) (bands img), props = []\<rparr>"

text \<open>\<^verbatim>\<open>copyProperties(source, names)\<close>: the named properties the source has are set on
  the destination.\<close>

definition set_prop :: "'v image \<Rightarrow> string \<Rightarrow> real \<Rightarrow> 'v image" where
  "set_prop img k v = img\<lparr>props := (k, v) # filter (\<lambda>kv. fst kv \<noteq> k) (props img)\<rparr>"

definition copyProperties :: "'a image \<Rightarrow> 'b image \<Rightarrow> string list \<Rightarrow> 'a image" where
  "copyProperties dst src ks =
     foldl (\<lambda>d k. case get_prop src k of None \<Rightarrow> d | Some v \<Rightarrow> set_prop d k v) dst ks"

text \<open>\<^verbatim>\<open>rename\<close> with one name; the script applies it to single-band images only.\<close>

definition rename :: "'v image \<Rightarrow> string \<Rightarrow> 'v image" where
  "rename img n = img\<lparr>bands := map (\<lambda>(_, p). (n, p)) (bands img)\<rparr>"

text \<open>\<^verbatim>\<open>ee.Image.constant(v)\<close>: one unmasked band named \<open>constant\<close>, no properties.
  \<^verbatim>\<open>mask(m)\<close> with a constant replaces the mask: zero masks every pixel.\<close>

definition constant_img :: "real \<Rightarrow> real image" where
  "constant_img v = \<lparr>bands = [(''constant'', Some v)], props = []\<rparr>"

definition mask_img :: "'v image \<Rightarrow> nat \<Rightarrow> 'v image" where
  "mask_img img m = img\<lparr>bands := map (\<lambda>(n, p). (n, if m = 0 then None else p)) (bands img)\<rparr>"

text \<open>\<^verbatim>\<open>addBands\<close> without overwrite: the bands of the second image are appended; one
  whose name is taken already gets the suffix \<open>_1\<close>.\<close>

definition addBands :: "'v image \<Rightarrow> 'v image \<Rightarrow> 'v image" where
  "addBands img other =
     img\<lparr>bands := bands img @
        map (\<lambda>(n, p). (if n \<in> set (map fst (bands img)) then n @ ''_1'' else n, p)) (bands other)\<rparr>"

text \<open>Mapping a function that can fail over a collection: the first failure is the
  result, as the lazy evaluation of the collection reports it.\<close>

fun mapE :: "('a \<Rightarrow> error + 'b) \<Rightarrow> 'a list \<Rightarrow> error + 'b list" where
  "mapE f [] = Inr []"
| "mapE f (x # xs) =
     (case f x of
        Inl e \<Rightarrow> Inl e
      | Inr y \<Rightarrow> (case mapE f xs of Inl e \<Rightarrow> Inl e | Inr ys \<Rightarrow> Inr (y # ys)))"

text \<open>\<^verbatim>\<open>select(names)\<close>: the named bands in the order of the names.\<close>

definition select_bands :: "'v image \<Rightarrow> string list \<Rightarrow> error + 'v image" where
  "select_bands img ns =
     (case mapE (\<lambda>n. case band img n of Inl e \<Rightarrow> Inl e | Inr p \<Rightarrow> Inr (n, p)) ns of
        Inl e \<Rightarrow> Inl e
      | Inr bs \<Rightarrow> Inr (img\<lparr>bands := bs\<rparr>))"

text \<open>
  Modelled from the spec: the pixel of \<^verbatim>\<open>normalizedDifference\<close> where \<open>a + b = 0\<close>.
  The function is part of the Earth Engine library, which is not in the repository; by
  the specification (4.2, 7 "DegenerateIndex", 9) the result there is a masked (absent)
  value, not a number and not an error. Elsewhere the pixel is \<open>(a - b) / (a + b)\<close>, and
  by the API documentation a negative value in either input masks the output pixel.
\<close>

definition nd_px :: "real option \<Rightarrow> real option \<Rightarrow> real option" where
  "nd_px p q =
     (case (p, q) of
        (Some a, Some b) \<Rightarrow>
          if a < 0 \<or> b < 0 then None
          else if a + b = 0 then None
          else Some ((a - b) / (a + b))
      | _ \<Rightarrow> None)"

text \<open>\<^verbatim>\<open>normalizedDifference([a, b])\<close>: one band named \<open>nd\<close>; the properties of the
  input are not retained.\<close>

definition normalizedDifference :: "real image \<Rightarrow> string \<Rightarrow> string \<Rightarrow> error + real image" where
  "normalizedDifference img a b =
     (case band img a of
        Inl e \<Rightarrow> Inl e
      | Inr pa \<Rightarrow>
          (case band img b of
             Inl e \<Rightarrow> Inl e
           | Inr pb \<Rightarrow> Inr \<lparr>bands = [(''nd'', nd_px pa pb)], props = []\<rparr>))"

text \<open>\<^verbatim>\<open>merge\<close> appends the second collection; \<^verbatim>\<open>sort(property)\<close> orders the images
  by the property, ascending. (An image without the property would come first here;
  the script never sorts one.)\<close>

definition merge :: "'a list \<Rightarrow> 'a list \<Rightarrow> 'a list" where
  "merge a b = a @ b"

definition sort_col :: "string \<Rightarrow> 'v image list \<Rightarrow> 'v image list" where
  "sort_col k col = sort_key (\<lambda>img. get_prop img k) col"

subsection \<open>Dates\<close>

text \<open>\<^verbatim>\<open>ee.Date('YYYY-MM-DD')\<close> is midnight UTC of that day, and \<^verbatim>\<open>millis()\<close> its
  distance from 1970-01-01 in milliseconds. The day count is the usual civil-calendar
  formula with the year starting in March.\<close>

definition digits :: "string \<Rightarrow> int" where
  "digits s = foldl (\<lambda>a c. 10 * a + (int (of_char c) - 48)) 0 s"

definition days_from_civil :: "int \<Rightarrow> int \<Rightarrow> int \<Rightarrow> int" where
  "days_from_civil y0 m d =
     (let y = (if m \<le> 2 then y0 - 1 else y0);
          era = y div 400;
          yoe = y - era * 400;
          doy = (153 * (if m > 2 then m - 3 else m + 9) + 2) div 5 + d - 1;
          doe = yoe * 365 + yoe div 4 - yoe div 100 + doy
      in era * 146097 + doe - 719468)"

definition ee_Date :: "string \<Rightarrow> int" where
  "ee_Date s =
     days_from_civil (digits (take 4 s)) (digits (take 2 (drop 5 s))) (digits (take 2 (drop 8 s)))
       * 86400000"

definition advance_hour :: "int \<Rightarrow> int \<Rightarrow> int" where
  "advance_hour n t = t + n * 3600000"

text \<open>\<^verbatim>\<open>filterDate(start, end)\<close> keeps the images with \<open>start \<le> system:time_start < end\<close>;
  \<^verbatim>\<open>ee.Filter.lt(property, v)\<close> keeps those whose property is below \<open>v\<close>. An image
  without the property does not pass.\<close>

definition filterDate :: "string \<Rightarrow> string \<Rightarrow> 'v image list \<Rightarrow> 'v image list" where
  "filterDate start end col =
     filter (\<lambda>img. case time_start img of
                      None \<Rightarrow> False
                    | Some t \<Rightarrow> real_of_int (ee_Date start) \<le> t \<and> t < real_of_int (ee_Date end)) col"

definition filter_lt :: "string \<Rightarrow> real \<Rightarrow> 'v image list \<Rightarrow> 'v image list" where
  "filter_lt k v col =
     filter (\<lambda>img. case get_prop img k of None \<Rightarrow> False | Some x \<Rightarrow> x < v) col"

subsection \<open>The time series of the clicked point (\<^verbatim>\<open>showTimeSeries\<close>, lines 217-239)\<close>

text \<open>
  \<open>archive\<close> stands for
  \<^verbatim>\<open>ee.ImageCollection("COPERNICUS/S2_SR_HARMONIZED").filterBounds(point)\<close>: the images
  of the collection over the clicked point, in the order of the collection.
\<close>

definition s2_chart :: "nat image list \<Rightarrow> nat image list" where
  "s2_chart archive =
     filter_lt ''CLOUDY_PIXEL_PERCENTAGE'' 60 (filterDate ''2020-09-01'' ''2021-10-31'' archive)"

definition cloudBitMask :: nat where
  "cloudBitMask = push_bit 10 1"

definition cirrusBitMask :: nat where
  "cirrusBitMask = push_bit 11 1"

definition cloud_mask :: "nat option \<Rightarrow> nat option" where
  "cloud_mask qa =
     and_px (eq_px (bitwiseAnd qa cloudBitMask) 0) (eq_px (bitwiseAnd qa cirrusBitMask) 0)"

definition maskS2clouds :: "nat image \<Rightarrow> error + real image" where
  "maskS2clouds img =
     (case band img ''QA60'' of
        Inl e \<Rightarrow> Inl e
      | Inr qa \<Rightarrow>
          Inr (copyProperties (divide (updateMask img (cloud_mask qa)) 10000) img
                 [''system:time_start'']))"

definition ndvi :: "real image \<Rightarrow> error + real image" where
  "ndvi img =
     (case normalizedDifference img ''B8'' ''B4'' of
        Inl e \<Rightarrow> Inl e
      | Inr nd \<Rightarrow> Inr (copyProperties (rename nd ''NDVI'') img [''system:time_start'']))"

definition s2_ndvi :: "nat image list \<Rightarrow> error + real image list" where
  "s2_ndvi archive =
     (case mapE maskS2clouds (s2_chart archive) of
        Inl e \<Rightarrow> Inl e
      | Inr masked \<Rightarrow> mapE ndvi masked)"

subsection \<open>The frost marker and the charted collection (callback, lines 254, 284-333)\<close>

text \<open>The two dummy images of the frost date, one hour apart (lines 296-308).\<close>

definition frostLineCol :: "jsval \<Rightarrow> real image list" where
  "frostLineCol frostVal =
     (let d = (if strict_eq frostVal 2 then ''2021-05-25'' else ''2021-06-30'');
          t1 = ee_Date d;
          t2 = advance_hour 1 (ee_Date d);
          frostImg1 =
            set_prop
              (addBands (rename (constant_img 0) ''FrostMarker'')
                 (rename (mask_img (constant_img 0) 0) ''NDVI''))
              ''system:time_start'' (real_of_int t1);
          frostImg2 =
            set_prop
              (addBands (rename (constant_img 1) ''FrostMarker'')
                 (rename (mask_img (constant_img 0) 0) ''NDVI''))
              ''system:time_start'' (real_of_int t2)
      in [frostImg1, frostImg2])"

text \<open>The empty \<open>FrostMarker\<close> band added to every image of the series (lines 311-313).\<close>

definition addFrostMarker :: "real image \<Rightarrow> real image" where
  "addFrostMarker img = addBands img (rename (mask_img (constant_img 0) 0) ''FrostMarker'')"

text \<open>\<open>combinedCol\<close> and \<open>bandsToSelect\<close> as they stand after the \<^verbatim>\<open>if (isFrostEvent)\<close>
  statement. Only the frost branch merges and sorts; the other branch leaves
  \<open>combinedCol\<close> as initialised, \<^verbatim>\<open>var combinedCol = s2_ndvi\<close>.\<close>

definition combinedCol :: "error + real image list \<Rightarrow> jsval \<Rightarrow> jsval \<Rightarrow> error + real image list" where
  "combinedCol s2ndvi cornVal frostVal =
     (if isFrostEvent cornVal frostVal then
        (case s2ndvi of
           Inl e \<Rightarrow> Inl e
         | Inr col \<Rightarrow>
             Inr (sort_col ''system:time_start''
                    (merge (map addFrostMarker col) (frostLineCol frostVal))))
      else s2ndvi)"

definition bandsToSelect :: "jsval \<Rightarrow> jsval \<Rightarrow> string list" where
  "bandsToSelect cornVal frostVal =
     (if isFrostEvent cornVal frostVal then [''FrostMarker'', ''NDVI''] else [''NDVI''])"

record series_option =
  color :: string
  lineWidth :: nat
  pointSize :: nat
  targetAxisIndex :: nat
  labelInLegend :: string

definition seriesOptions :: "jsval \<Rightarrow> jsval \<Rightarrow> series_option list" where
  "seriesOptions cornVal frostVal =
     (let lineColor = snd (classify cornVal frostVal) in
      if isFrostEvent cornVal frostVal then
        [\<lparr>color = ''black'', lineWidth = 1, pointSize = 0, targetAxisIndex = 1,
          labelInLegend = ''Frost Event''\<rparr>,
         \<lparr>color = lineColor, lineWidth = 2, pointSize = 3, targetAxisIndex = 0,
          labelInLegend = ''NDVI''\<rparr>]
      else
        [\<lparr>color = lineColor, lineWidth = 2, pointSize = 3, targetAxisIndex = 0,
          labelInLegend = ''NDVI''\<rparr>])"

text \<open>\<^verbatim>\<open>combinedCol.select(bandsToSelect)\<close>, the collection handed to the chart.\<close>

definition select_col :: "error + 'v image list \<Rightarrow> string list \<Rightarrow> error + 'v image list" where
  "select_col col ns =
     (case col of Inl e \<Rightarrow> Inl e | Inr imgs \<Rightarrow> mapE (\<lambda>img. select_bands img ns) imgs)"

record coords =
  lon :: real
  lat :: real

text \<open>The chart: its image collection (one row per image: the time and the selected
  bands at the point), the status text and the coordinates the title is built from, and
  the series styles. The title string itself (numbers printed with four decimals) is not
  modelled.\<close>

record chart =
  imageCollection :: "error + real image list"
  region :: coords
  title_status :: string
  series :: "series_option list"

definition make_chart :: "nat image list \<Rightarrow> coords \<Rightarrow> dict \<Rightarrow> chart" where
  "make_chart archive c result =
     (let cornVal = get_key result ''Corn'';
          frostVal = get_key result ''Frost''
      in \<lparr>imageCollection =
            select_col (combinedCol (s2_ndvi archive) cornVal frostVal)
              (bandsToSelect cornVal frostVal),
          region = c,
          title_status = fst (classify cornVal frostVal),
          series = seriesOptions cornVal frostVal\<rparr>)"

subsection \<open>The user interface state and its handlers\<close>

text \<open>
  The two maps and the chart panel are module-level objects that the handlers mutate. A
  layer holds a description of the object it shows: the clicked point, or the first
  archive image of a day at a point. The name of a date layer contains the date printed
  by JavaScript's \<^verbatim>\<open>toISOString\<close>; the printing is the parameter \<open>dateStr\<close>.
\<close>

datatype ee_object =
  FrostLayer                    \<comment> \<open>the frost band masked to corn\<close>
| MosaicOfDay int               \<comment> \<open>the archive mosaic of the day starting at a time\<close>
| PointGeometry coords          \<comment> \<open>the clicked point\<close>
| FirstImageOfDay coords real   \<comment> \<open>the first archive image over a point in the day after a time\<close>

datatype vis =
  ColorVis string
| PaletteVis real real "string list"
| BandVis "string list" real real real

record layer =
  eeObject :: ee_object
  visParams :: vis
  name :: string
  visible :: bool

datatype widget =
  Label string
| ChartWidget chart
| LinkLabel string coords
| Button string

record ui =
  leftMap :: "layer list"
  rightMap :: "layer list"
  chartPanel :: "widget list"
  shown :: bool

text \<open>\<^verbatim>\<open>layers().set(i, l)\<close>: replaces the layer at \<open>i\<close>, and appends when \<open>i\<close> is the
  length of the list (the only way the script calls it).\<close>

definition set_layer :: "layer list \<Rightarrow> nat \<Rightarrow> layer \<Rightarrow> layer list" where
  "set_layer ls i l = (if i < length ls then ls[i := l] else ls @ [l])"

definition addLayer :: "layer list \<Rightarrow> ee_object \<Rightarrow> vis \<Rightarrow> string \<Rightarrow> bool \<Rightarrow> layer list" where
  "addLayer ls obj v n sh = ls @ [\<lparr>eeObject = obj, visParams = v, name = n, visible = sh\<rparr>]"

text \<open>The maps as the script sets them up before any click (lines 29-42, 52-56,
  92-127): the classification on the left, an RGB and a false colour layer for each of
  five dates on the right, the chart panel empty and hidden.\<close>

definition frostVis :: vis where
  "frostVis = PaletteVis 1 4 [''#00FFFF'', ''#FF00FF'', ''#0000FF'', ''#008000'']"

definition getVisParams :: "string list \<Rightarrow> vis" where
  "getVisParams bs = BandVis bs 0 3000 1.4"

definition dates :: "string list" where
  "dates = [''2021-03-16'', ''2021-04-20'', ''2021-06-04'', ''2021-07-09'', ''2021-07-29'']"

definition add_date_layers :: "layer list \<Rightarrow> string \<times> nat \<Rightarrow> layer list" where
  "add_date_layers ls di =
     (let date = fst di; index = snd di;
          img = MosaicOfDay (ee_Date date);
          show = (index = 0);
          ls1 = addLayer ls img (getVisParams [''B4'', ''B3'', ''B2'']) (date @ '' (RGB)'') show
      in addLayer ls1 img (getVisParams [''B8'', ''B11'', ''B4'']) (date @ '' (False Color)'') False)"

definition initial_ui :: ui where
  "initial_ui =
     \<lparr>leftMap = addLayer [] FrostLayer frostVis ''Corn Frost Classification'' True,
      rightMap = foldl add_date_layers [] (zip dates [0 ..< length dates]),
      chartPanel = [],
      shown = False\<rparr>"

text \<open>The synchronous part of \<^verbatim>\<open>showTimeSeries\<close> (lines 203-215).\<close>

definition showTimeSeries_begin :: "coords \<Rightarrow> ui \<Rightarrow> ui" where
  "showTimeSeries_begin c s =
     (let dotLeft = \<lparr>eeObject = PointGeometry c, visParams = ColorVis ''red'',
                     name = ''Clicked Point'', visible = True\<rparr>;
          dotRight = \<lparr>eeObject = PointGeometry c, visParams = ColorVis ''red'',
                      name = ''Clicked Point'', visible = True\<rparr>
      in s\<lparr>chartPanel := [Label ''Loading chart...''],
           shown := True,
           leftMap := set_layer (leftMap s) (length (leftMap s)) dotLeft,
           rightMap := set_layer (rightMap s) (length (rightMap s)) dotRight\<rparr>)"

text \<open>The callback of \<^verbatim>\<open>evaluate\<close> (lines 248-390). \<open>result\<close> is the dictionary of the
  sampled raster, or \<^verbatim>\<open>undefined\<close> (\<open>None\<close>) when the request failed; reading
  \<^verbatim>\<open>result['Corn']\<close> then throws before anything is changed.\<close>

definition evaluate_callback :: "nat image list \<Rightarrow> coords \<Rightarrow> dict option \<Rightarrow> ui \<Rightarrow> error + ui" where
  "evaluate_callback archive c result s =
     (case result of
        None \<Rightarrow> Inl TypeError
      | Some r \<Rightarrow>
          Inr (s\<lparr>chartPanel :=
                   [ChartWidget (make_chart archive c r),
                    LinkLabel ''See in Google Maps'' c,
                    Button ''Close Chart'']\<rparr>))"

text \<open>\<^verbatim>\<open>showTimeSeries\<close> with its callback run at once: \<open>s2\<close> gives the archive over a
  point and \<open>frost\<close> the sample of the classification raster there. The result is the
  error the callback threw, if any, and the state left behind; a callback that throws
  leaves the state of the synchronous part.\<close>

definition showTimeSeries ::
  "(coords \<Rightarrow> nat image list) \<Rightarrow> (coords \<Rightarrow> dict option) \<Rightarrow> coords \<Rightarrow> ui \<Rightarrow> error option \<times> ui" where
  "showTimeSeries s2 frost c s =
     (let s1 = showTimeSeries_begin c s in
      case evaluate_callback (s2 c) c (frost c) s1 of
        Inl e \<Rightarrow> (Some e, s1)
      | Inr s2 \<Rightarrow> (None, s2))"






section \<open>Describing the series\<close>

text \<open>
  Names for what the pipeline computes, used to state the properties. \<open>time_props\<close> is
  the property list that \<^verbatim>\<open>copyProperties(img, ['system:time_start'])\<close> leaves on a
  fresh image; \<open>px\<close> reads a pixel, masked when the band is missing; \<open>reflectance\<close> is a
  band after \<open>maskS2clouds\<close>; \<open>index_obs\<close> is the NDVI observation of an archive image;
  \<open>marked_obs\<close> is an observation with the empty marker band, in the order
  \<open>bandsToSelect\<close> gives. \<open>s2_bands_present\<close> says that an archive image has the three
  bands the script reads.
\<close>

definition time_props :: "'v image \<Rightarrow> (string \<times> real) list" where
  "time_props img = (case time_start img of None \<Rightarrow> [] | Some t \<Rightarrow> [(''system:time_start'', t)])"

definition px :: "'v image \<Rightarrow> string \<Rightarrow> 'v option" where
  "px img n = (case band img n of Inl e \<Rightarrow> None | Inr p \<Rightarrow> p)"

definition reflectance :: "nat image \<Rightarrow> string \<Rightarrow> real option" where
  "reflectance img n =
     (if keep_px (cloud_mask (px img ''QA60''))
      then map_option (\<lambda>v. real v / 10000) (px img n) else None)"

definition index_obs :: "nat image \<Rightarrow> real image" where
  "index_obs img =
     \<lparr>bands = [(''NDVI'', nd_px (reflectance img ''B8'') (reflectance img ''B4''))],
      props = time_props img\<rparr>"

definition marked_obs :: "real image \<Rightarrow> real image" where
  "marked_obs img = img\<lparr>bands := [(''FrostMarker'', None), (''NDVI'', px img ''NDVI'')]\<rparr>"

definition s2_bands_present :: "nat image \<Rightarrow> bool" where
  "s2_bands_present img = list_all (\<lambda>n. n \<in> set (map fst (bands img))) [''QA60'', ''B8'', ''B4'']"

text \<open>\<open>marker_obs v t\<close> is a marker observation: marker value \<open>v\<close>, no index, time \<open>t\<close>.
  \<open>clicked_point\<close> and \<open>clicked_date_layers\<close> are the layers the two click handlers
  build.\<close>

definition marker_obs :: "real \<Rightarrow> real \<Rightarrow> real image" where
  "marker_obs v t =
     \<lparr>bands = [(''FrostMarker'', Some v), (''NDVI'', None)], props = [(''system:time_start'', t)]\<rparr>"



section \<open>Example inputs\<close>

text \<open>
  Archive images at one point: \<open>scene t qa b8 b4\<close> was taken at time \<open>t\<close>, has quality
  flags \<open>qa\<close> and digital numbers \<open>b8\<close> and \<open>b4\<close> in the near-infrared and red bands, and a
  scene cloud percentage of 10. Two clear scenes (20 April and 4 June 2021) and a cloudy
  one (27 March 2021, cloud bit set); three samples of the classification raster; a point.
\<close>

definition scene :: "real \<Rightarrow> nat \<Rightarrow> nat \<Rightarrow> nat \<Rightarrow> nat image" where
  "scene t qa b8 b4 =
     \<lparr>bands = [(''B4'', Some b4), (''B8'', Some b8), (''QA60'', Some qa)],
      props = [(''system:time_start'', t), (''CLOUDY_PIXEL_PERCENTAGE'', 10)]\<rparr>"

definition scene_april :: "nat image" where
  "scene_april = scene 1618876800000 0 5000 1000"

definition scene_june :: "nat image" where
  "scene_june = scene 1622764800000 0 3000 3000"

definition scene_cloudy :: "nat image" where
  "scene_cloudy = scene 1616803200000 1024 5000 1000"

definition harvested :: dict where
  "harvested = [(''Corn'', Num 2), (''Frost'', Num 1)]"

definition frost_may :: dict where
  "frost_may = [(''Corn'', Num 2), (''Frost'', Num 2)]"

definition nodata :: dict where
  "nodata = [(''Corn'', Null), (''Frost'', Null)]"

definition parana :: coords where
  "parana = \<lparr>lon = - 53.5, lat = - 24.5\<rparr>"




section \<open>Auxiliary facts\<close>

lemma mapE_map:
  "(\<And>x. x \<in> set xs \<Longrightarrow> f x = Inr (g x)) \<Longrightarrow> mapE f xs = Inr (map g xs)"
  by (induction xs) simp_all

lemma copy_time_start:
  "props dst = [] \<Longrightarrow>
   copyProperties dst src [''system:time_start''] = dst\<lparr>props := time_props src\<rparr>"
  by (cases "get_prop src ''system:time_start''")
     (simp_all add: copyProperties_def set_prop_def time_props_def time_start_def)

lemma time_start_time_props [simp]:
  "time_start \<lparr>bands = b, props = time_props img\<rparr> = time_start img"
  by (simp add: time_start_def get_prop_def time_props_def split: option.splits)

lemma time_props_idem:
  "time_props \<lparr>bands = b, props = time_props img\<rparr> = time_props img"
  by (simp add: time_props_def time_start_def get_prop_def split: option.splits)

lemma mapE_map_comp:
  "(\<And>x. x \<in> set xs \<Longrightarrow> f (h x) = Inr (g x)) \<Longrightarrow> mapE f (map h xs) = Inr (map g xs)"
  by (induction xs) simp_all

lemma band_present:
  "n \<in> set (map fst (bands img)) \<Longrightarrow> band img n = Inr (px img n)"
  by (cases "map_of (bands img) n") (auto simp: band_def px_def map_of_eq_None_iff)

lemma maskS2clouds_Inr:
  assumes "band img ''QA60'' = Inr qa"
  shows "maskS2clouds img =
           Inr \<lparr>bands = map (\<lambda>(n, p). (n, if keep_px (cloud_mask qa)
                                            then map_option (\<lambda>v. real v / 10000) p else None))
                          (bands img),
                props = time_props img\<rparr>"
  using assms
  by (simp add: maskS2clouds_def copy_time_start divide_def updateMask_def
        case_prod_unfold comp_def cong: if_cong)

lemma band_map_bands:
  "band img n = Inr p \<Longrightarrow>
   band \<lparr>bands = map (\<lambda>(k, v). (k, f v)) (bands img), props = ps\<rparr> n = Inr (f p)"
  by (auto simp: band_def map_of_map split: option.splits)

lemma ndvi_Inr:
  assumes "band m ''B8'' = Inr p8" and "band m ''B4'' = Inr p4"
  shows "ndvi m = Inr \<lparr>bands = [(''NDVI'', nd_px p8 p4)], props = time_props m\<rparr>"
  using assms
  by (simp add: ndvi_def normalizedDifference_def rename_def copy_time_start)

lemma index_obs_pipeline:
  assumes "s2_bands_present img"
  shows "\<exists>m. maskS2clouds img = Inr m \<and> ndvi m = Inr (index_obs img)"
proof -
  from assms have q: "band img ''QA60'' = Inr (px img ''QA60'')"
    and b8: "band img ''B8'' = Inr (px img ''B8'')"
    and b4: "band img ''B4'' = Inr (px img ''B4'')"
    by (simp_all add: s2_bands_present_def band_present)
  let ?f = "\<lambda>p. if keep_px (cloud_mask (px img ''QA60''))
                 then map_option (\<lambda>v. real v / 10000) p else None"
  let ?m = "\<lparr>bands = map (\<lambda>(n, p). (n, ?f p)) (bands img), props = time_props img\<rparr>"
  have m: "maskS2clouds img = Inr ?m"
    by (rule maskS2clouds_Inr [OF q])
  have "ndvi ?m = Inr \<lparr>bands = [(''NDVI'', nd_px (?f (px img ''B8'')) (?f (px img ''B4'')))],
                       props = time_props ?m\<rparr>"
    by (rule ndvi_Inr) (rule band_map_bands [OF b8], rule band_map_bands [OF b4])
  moreover have "time_props ?m = time_props img"
    by (rule time_props_idem)
  ultimately have "ndvi ?m = Inr (index_obs img)"
    by (simp add: index_obs_def reflectance_def)
  with m show ?thesis by blast
qed

lemma s2_ndvi_total:
  assumes "list_all s2_bands_present (s2_chart archive)"
  shows "s2_ndvi archive = Inr (map index_obs (s2_chart archive))"
proof -
  define mk where "mk = (\<lambda>img. case maskS2clouds img of Inr m \<Rightarrow> m)"
  have each: "maskS2clouds img = Inr (mk img) \<and> ndvi (mk img) = Inr (index_obs img)"
    if "img \<in> set (s2_chart archive)" for img
  proof -
    from that assms have "s2_bands_present img" by (simp add: list_all_iff)
    from index_obs_pipeline [OF this] show ?thesis by (auto simp: mk_def)
  qed
  have 1: "mapE maskS2clouds (s2_chart archive) = Inr (map mk (s2_chart archive))"
    by (rule mapE_map) (simp add: each)
  have 2: "mapE ndvi (map mk (s2_chart archive)) = Inr (map index_obs (s2_chart archive))"
    by (rule mapE_map_comp) (simp add: each)
  show ?thesis
    by (simp add: s2_ndvi_def 1 2)
qed

lemma empty_marker: "rename (mask_img (constant_img 0) 0) n = \<lparr>bands = [(n, None)], props = []\<rparr>"
  by (simp add: rename_def mask_img_def constant_img_def)

lemma addFrostMarker_index_obs:
  "addFrostMarker (index_obs img) =
     \<lparr>bands = [(''NDVI'', px (index_obs img) ''NDVI''), (''FrostMarker'', None)],
      props = time_props img\<rparr>"
  by (simp add: addFrostMarker_def empty_marker addBands_def index_obs_def px_def band_def)

lemma select_marked:
  "select_bands (addFrostMarker (index_obs img)) [''FrostMarker'', ''NDVI''] =
     Inr (marked_obs (index_obs img))"
  unfolding addFrostMarker_index_obs
  by (simp add: select_bands_def band_def marked_obs_def index_obs_def px_def)

lemma select_index_obs:
  "select_bands (index_obs img) [''NDVI''] = Inr (index_obs img)"
  by (simp add: select_bands_def band_def index_obs_def)

lemma ee_Date_may25: "ee_Date ''2021-05-25'' = 1621900800000"
  by (simp add: ee_Date_def digits_def days_from_civil_def)

lemma ee_Date_june30: "ee_Date ''2021-06-30'' = 1625011200000"
  by (simp add: ee_Date_def digits_def days_from_civil_def)

lemma frostImg_eq:
  "set_prop (addBands (rename (constant_img v) ''FrostMarker'')
               (rename (mask_img (constant_img 0) 0) ''NDVI'')) ''system:time_start'' t =
   \<lparr>bands = [(''FrostMarker'', Some v), (''NDVI'', None)], props = [(''system:time_start'', t)]\<rparr>"
  unfolding empty_marker
  by (simp add: rename_def constant_img_def addBands_def set_prop_def)

lemma frostLineCol_eq:
  "frostLineCol frostVal =
     (let t = (if frostVal = Num 2 then 1621900800000 else 1625011200000) in
      [\<lparr>bands = [(''FrostMarker'', Some 0), (''NDVI'', None)],
        props = [(''system:time_start'', t)]\<rparr>,
       \<lparr>bands = [(''FrostMarker'', Some 1), (''NDVI'', None)],
        props = [(''system:time_start'', t + 3600000)]\<rparr>])"
  by (simp add: frostLineCol_def Let_def strict_eq_def frostImg_eq ee_Date_may25 ee_Date_june30
        advance_hour_def)

lemma select_frostLineCol:
  "x \<in> set (frostLineCol frostVal) \<Longrightarrow> select_bands x [''FrostMarker'', ''NDVI''] = Inr x"
  by (auto simp: frostLineCol_eq Let_def select_bands_def band_def split: if_splits)

lemma select_bands_props:
  "select_bands x ns = Inr y \<Longrightarrow> props y = props x"
  by (auto simp: select_bands_def split: sum.splits)

lemma select_bands_time_start:
  "select_bands x ns = Inr y \<Longrightarrow> time_start y = time_start x"
  by (simp add: time_start_def get_prop_def select_bands_props)

lemma sort_col_time_start:
  "sort_col ''system:time_start'' col = sort_key time_start col"
proof -
  have "(\<lambda>img :: 'a image. get_prop img ''system:time_start'') = time_start"
    by (rule ext) (simp add: time_start_def)
  then show ?thesis by (simp add: sort_col_def)
qed

lemma frost_series:
  "\<exists>ser. select_col
            (Inr (sort_col ''system:time_start''
                    (merge (map addFrostMarker (map index_obs obs)) (frostLineCol frostVal))))
            [''FrostMarker'', ''NDVI''] = Inr ser \<and>
         sorted (map time_start ser) \<and>
         mset ser = mset (map marked_obs (map index_obs obs)) + mset (frostLineCol frostVal)"
proof -
  define sel :: "real image \<Rightarrow> real image" where "sel = (\<lambda>x. case select_bands x [''FrostMarker'', ''NDVI''] of Inr y \<Rightarrow> y)"
  define merged where
    "merged = map addFrostMarker (map index_obs obs) @ frostLineCol frostVal"
  have sel: "select_bands x [''FrostMarker'', ''NDVI''] = Inr (sel x) \<and>
             time_start (sel x) = time_start x"
    if "x \<in> set merged" for x
  proof -
    from that have "\<exists>y. select_bands x [''FrostMarker'', ''NDVI''] = Inr y"
      by (auto simp: merged_def select_marked select_frostLineCol)
    then show ?thesis
      by (auto simp: sel_def select_bands_time_start)
  qed
  have 1: "select_col (Inr (sort_col ''system:time_start'' merged)) [''FrostMarker'', ''NDVI''] =
           Inr (map sel (sort_key time_start merged))"
    unfolding select_col_def sort_col_time_start
    by (simp, rule mapE_map) (simp add: sel)
  have 2: "map sel merged = map marked_obs (map index_obs obs) @ frostLineCol frostVal"
    by (simp add: merged_def sel_def select_marked select_frostLineCol map_idI)
  have 3: "map time_start (map sel (sort_key time_start merged)) =
           map time_start (sort_key time_start merged)"
    by (simp add: sel)
  have "sorted (map time_start (map sel (sort_key time_start merged)))"
    unfolding 3 by (rule sorted_sort_key)
  moreover have "mset (map sel (sort_key time_start merged)) =
      mset (map marked_obs (map index_obs obs)) + mset (frostLineCol frostVal)"
  proof -
    have "mset (map sel (sort_key time_start merged)) = mset (map sel merged)"
      by simp
    also have "\<dots> = mset (map marked_obs (map index_obs obs) @ frostLineCol frostVal)"
      by (simp only: 2)
    finally show ?thesis by simp
  qed
  ultimately show ?thesis
    using 1 by (auto simp: merged_def merge_def)
qed

lemmas query_defs =
  s2_chart_def filter_lt_def filterDate_def time_start_def get_prop_def
  ee_Date_def digits_def days_from_civil_def

lemmas mask_defs =
  maskS2clouds_def band_def cloud_mask_def and_px_def eq_px_def bitwiseAnd_def
  cloudBitMask_def cirrusBitMask_def keep_px_def updateMask_def divide_def
  copyProperties_def set_prop_def get_prop_def time_start_def

lemmas ndvi_defs =
  s2_ndvi_def ndvi_def normalizedDifference_def nd_px_def rename_def

lemmas chart_defs =
  make_chart_def get_key_def combinedCol_def bandsToSelect_def seriesOptions_def
  isFrostEvent_def isCorn_def strict_eq_def classify_def select_col_def select_bands_def
  addFrostMarker_def addBands_def constant_img_def mask_img_def merge_def sort_col_def
  frostLineCol_def advance_hour_def

lemma s2_chart_scenes:
  "s2_chart [scene_june, scene_april] = [scene_june, scene_april]"
  by (simp add: query_defs scene_june_def scene_april_def scene_def)

lemma time_start_index_obs: "time_start (index_obs img) = time_start img"
  by (simp add: index_obs_def)

lemma imageCollection_make_chart:
  "imageCollection (make_chart archive c result) =
     select_col (combinedCol (s2_ndvi archive) (get_key result ''Corn'') (get_key result ''Frost''))
       (bandsToSelect (get_key result ''Corn'') (get_key result ''Frost''))"
  by (simp add: make_chart_def Let_def)

lemma s2_ndvi_scenes:
  "s2_ndvi [scene_june, scene_april] =
     Inr [\<lparr>bands = [(''NDVI'', Some 0)], props = [(''system:time_start'', 1622764800000)]\<rparr>,
          \<lparr>bands = [(''NDVI'', Some (2 / 3))], props = [(''system:time_start'', 1618876800000)]\<rparr>]"
  unfolding s2_ndvi_def s2_chart_scenes
  by (simp add: mask_defs ndvi_defs scene_june_def scene_april_def scene_def)

lemma frost_category:
  "isFrostEvent cornVal frostVal \<longleftrightarrow>
     fst (classify cornVal frostVal) \<in> {''Affected by Frost: May 25'', ''Affected by Frost: June 30''}"
  by (simp add: isFrostEvent_def classify_def isCorn_def strict_eq_def)

lemma may25_midnight: "days_from_civil 2021 5 25 * 86400000 = 1621900800000"
  by (simp add: days_from_civil_def)

lemma june30_midnight: "days_from_civil 2021 6 30 * 86400000 = 1625011200000"
  by (simp add: days_from_civil_def)

lemma cloud_mask_bits:
  "keep_px (cloud_mask (Some qa)) \<longleftrightarrow> \<not> bit qa 10 \<and> \<not> bit qa 11"
proof -
  have cloud: "qa AND cloudBitMask = 0 \<longleftrightarrow> \<not> bit qa 10"
    by (simp only: cloudBitMask_def push_bit_of_1 and_exp_eq_0_iff_not_bit)
  have cirrus: "qa AND cirrusBitMask = 0 \<longleftrightarrow> \<not> bit qa 11"
    by (simp only: cirrusBitMask_def push_bit_of_1 and_exp_eq_0_iff_not_bit)
  show ?thesis
    by (simp add: cloud_mask_def and_px_def eq_px_def bitwiseAnd_def keep_px_def cloud cirrus)
qed

lemma s2_ndvi_times:
  assumes "list_all s2_bands_present (s2_chart archive)"
  shows "\<exists>obs. s2_ndvi archive = Inr obs \<and> length obs = length (s2_chart archive) \<and>
               map time_start obs = map time_start (s2_chart archive)"
  using s2_ndvi_total [OF assms] by (simp add: comp_def time_start_index_obs)

lemma index_obs_cloudy:
  assumes "\<not> keep_px (cloud_mask (px img ''QA60''))"
  shows "index_obs img = \<lparr>bands = [(''NDVI'', None)], props = time_props img\<rparr>"
  using assms by (simp add: index_obs_def reflectance_def nd_px_def)

lemma scene_cloudy_facts:
  "s2_chart [scene_cloudy] = [scene_cloudy]"
  "s2_bands_present scene_cloudy"
  "px scene_cloudy ''QA60'' = Some 1024"
  "time_props scene_cloudy = [(''system:time_start'', 1616803200000)]"
  "time_start scene_cloudy = Some 1616803200000"
  "bands scene_cloudy = [(''B4'', Some 1000), (''B8'', Some 5000), (''QA60'', Some 1024)]"
  by (simp_all add: query_defs s2_bands_present_def px_def band_def time_props_def
        scene_cloudy_def scene_def)

lemma cloud_bit_1024: "\<not> keep_px (cloud_mask (Some 1024))"
  by (simp add: cloud_mask_bits bit_iff_odd)





lemma s2_chart_time: "x \<in> set (s2_chart archive) \<Longrightarrow> time_start x \<noteq> None"
  by (cases "time_start x") (auto simp: s2_chart_def filter_lt_def filterDate_def)

lemma time_start_marked_obs: "time_start (marked_obs x) = time_start x"
  by (simp add: marked_obs_def time_start_def get_prop_def)

lemma time_start_frostLineCol: "x \<in> set (frostLineCol frostVal) \<Longrightarrow> time_start x \<noteq> None"
  by (auto simp: frostLineCol_eq Let_def time_start_def get_prop_def split: if_splits)

lemma frost_chart_series:
  assumes "list_all s2_bands_present (s2_chart archive)"
    and "isFrostEvent (get_key result ''Corn'') (get_key result ''Frost'')"
  shows "\<exists>ser. imageCollection (make_chart archive c result) = Inr ser \<and>
          sorted (map time_start ser) \<and>
          list_all (\<lambda>x. time_start x \<noteq> None) ser \<and>
          mset ser = mset (map marked_obs (map index_obs (s2_chart archive))) +
                     mset (frostLineCol (get_key result ''Frost''))"
proof -
  from s2_ndvi_total [OF assms(1)] assms(2)
    frost_series [of "s2_chart archive" "get_key result ''Frost''"]
  obtain ser where ser:
    "imageCollection (make_chart archive c result) = Inr ser"
    "sorted (map time_start ser)"
    "mset ser = mset (map marked_obs (map index_obs (s2_chart archive))) +
                mset (frostLineCol (get_key result ''Frost''))"
    by (auto simp: imageCollection_make_chart combinedCol_def bandsToSelect_def)
  from ser(3) have "set ser = set (map marked_obs (map index_obs (s2_chart archive))) \<union>
      set (frostLineCol (get_key result ''Frost''))"
    by (metis set_mset_mset set_mset_union)
  then have "list_all (\<lambda>x. time_start x \<noteq> None) ser"
    by (auto simp: list_all_iff time_start_marked_obs time_start_index_obs
          dest: s2_chart_time time_start_frostLineCol)
  with ser show ?thesis by blast
qed

lemma plain_chart_series:
  assumes "list_all s2_bands_present (s2_chart archive)"
    and "\<not> isFrostEvent (get_key result ''Corn'') (get_key result ''Frost'')"
  shows "imageCollection (make_chart archive c result) = Inr (map index_obs (s2_chart archive))"
proof -
  have "mapE (\<lambda>img. select_bands img [''NDVI'']) (map index_obs (s2_chart archive)) =
        Inr (map index_obs (s2_chart archive))"
    by (rule mapE_map_comp) (simp add: select_index_obs)
  with s2_ndvi_total [OF assms(1)] assms(2) show ?thesis
    by (simp add: imageCollection_make_chart combinedCol_def bandsToSelect_def select_col_def)
qed


lemma begin_chartPanel:
  "chartPanel (showTimeSeries_begin c s) = [Label ''Loading chart...'']"
  "shown (showTimeSeries_begin c s) = True"
  by (simp_all add: showTimeSeries_begin_def)







lemma showTimeSeries_chartPanel:
  "fst (showTimeSeries s2 frost c s) = (case frost c of None \<Rightarrow> Some TypeError | Some r \<Rightarrow> None)"
  "chartPanel (snd (showTimeSeries s2 frost c s)) =
     (case frost c of
        None \<Rightarrow> [Label ''Loading chart...'']
      | Some r \<Rightarrow> [ChartWidget (make_chart (s2 c) c r), LinkLabel ''See in Google Maps'' c,
                   Button ''Close Chart''])"
  by (simp_all add: showTimeSeries_def evaluate_callback_def begin_chartPanel Let_def
        split: option.splits)

section \<open>Properties\<close>

text \<open>
  C2. The classifier follows the decision table: a crop mask other than 2 (also a missing
  one) gives "No corn mask" in black whatever the frost class; crop mask 2 with frost class
  1, 2, 3, 4 gives "Harvested" in cyan (\<open>#00FFFF\<close>), "Affected by Frost: May 25" in magenta
  (\<open>#FF00FF\<close>), "Affected by Frost: June 30" in blue (\<open>#0000FF\<close>) and "Not Affected" in
  green (\<open>#008000\<close>); crop mask 2 with any other frost class, also a missing one, gives
  "Unknown Class" in gray.
\<close>

theorem classify_decision_table:
  "(cornVal \<noteq> Num 2 \<longrightarrow> classify cornVal frostVal = (''No corn mask'', ''black'')) \<and>
   classify (Num 2) (Num 1) = (''Harvested'', ''#00FFFF'') \<and>
   classify (Num 2) (Num 2) = (''Affected by Frost: May 25'', ''#FF00FF'') \<and>
   classify (Num 2) (Num 3) = (''Affected by Frost: June 30'', ''#0000FF'') \<and>
   classify (Num 2) (Num 4) = (''Not Affected'', ''#008000'') \<and>
   (frostVal \<notin> {Num 1, Num 2, Num 3, Num 4} \<longrightarrow>
      classify (Num 2) frostVal = (''Unknown Class'', ''gray''))"
  by (simp add: classify_def isCorn_def strict_eq_def)

theorem classify_decision_table_witness:
  "classify (Num 1) (Num 3) = (''No corn mask'', ''black'') \<and>
   classify (Num 2) (Num 3) = (''Affected by Frost: June 30'', ''#0000FF'') \<and>
   classify (Num 2) (Num 7) = (''Unknown Class'', ''gray'') \<and>
   classify (Num 2) Null = (''Unknown Class'', ''gray'')"
  using classify_decision_table [of "Num 1" "Num 3"] classify_decision_table [of "Num 2" "Num 7"]
    classify_decision_table [of "Num 2" Null]
  by simp

text \<open>
  C1 (as amended). When every archive image of the study window has the bands the script
  reads, the series evaluates. For a frost-event point the charted series is sorted by
  time, non-decreasing, and is a rearrangement of the index observations of the archive
  images, each with the empty marker band, together with the two marker observations.
  For any other point the charted series is the list of index observations in the order
  of the archive, unsorted: its times are the archive's times in the archive's order.
\<close>

theorem series_order:
  assumes "list_all s2_bands_present (s2_chart archive)"
  shows "s2_ndvi archive = Inr (map index_obs (s2_chart archive)) \<and>
    (if isFrostEvent (get_key result ''Corn'') (get_key result ''Frost'') then
       (\<exists>ser. imageCollection (make_chart archive c result) = Inr ser \<and>
          sorted (map time_start ser) \<and>
          list_all (\<lambda>x. time_start x \<noteq> None) ser \<and>
          mset ser = mset (map marked_obs (map index_obs (s2_chart archive))) +
                     mset (frostLineCol (get_key result ''Frost'')))
     else
       (\<exists>ser. imageCollection (make_chart archive c result) = Inr ser \<and>
          ser = map index_obs (s2_chart archive) \<and>
          map time_start ser = map time_start (s2_chart archive)))"
proof (cases "isFrostEvent (get_key result ''Corn'') (get_key result ''Frost'')")
  case True
  with s2_ndvi_total [OF assms] frost_chart_series [OF assms True, of c] show ?thesis
    by simp
next
  case False
  with s2_ndvi_total [OF assms] plain_chart_series [OF assms False, of c] show ?thesis
    by (simp add: time_start_index_obs comp_def)
qed

theorem series_order_witness:
  "list_all s2_bands_present (s2_chart [scene_june, scene_april]) \<and>
   isFrostEvent (get_key frost_may ''Corn'') (get_key frost_may ''Frost'') \<and>
   (\<exists>ser. imageCollection (make_chart [scene_june, scene_april] parana frost_may) = Inr ser \<and>
      sorted (map time_start ser) \<and> length ser = 4) \<and>
   \<not> isFrostEvent (get_key harvested ''Corn'') (get_key harvested ''Frost'') \<and>
   imageCollection (make_chart [scene_june, scene_april] parana harvested) =
     Inr [index_obs scene_june, index_obs scene_april]"
proof -
  have present: "list_all s2_bands_present (s2_chart [scene_june, scene_april])"
    unfolding s2_chart_scenes
    by (simp add: s2_bands_present_def scene_june_def scene_april_def scene_def)
  have frost: "isFrostEvent (get_key frost_may ''Corn'') (get_key frost_may ''Frost'')"
    by (simp add: isFrostEvent_def isCorn_def strict_eq_def get_key_def frost_may_def)
  have other: "\<not> isFrostEvent (get_key harvested ''Corn'') (get_key harvested ''Frost'')"
    by (simp add: isFrostEvent_def isCorn_def strict_eq_def get_key_def harvested_def)
  from series_order [OF present, of frost_may parana] frost
  obtain ser where ser:
    "imageCollection (make_chart [scene_june, scene_april] parana frost_may) = Inr ser"
    "sorted (map time_start ser)"
    "mset ser = mset (map marked_obs (map index_obs (s2_chart [scene_june, scene_april]))) +
                mset (frostLineCol (get_key frost_may ''Frost''))"
    by auto
  from ser(3) have "size (mset ser) = 4"
    by (simp add: s2_chart_scenes frostLineCol_eq Let_def)
  then have "length ser = 4" by simp
  moreover from series_order [OF present, of harvested parana] other
  have "imageCollection (make_chart [scene_june, scene_april] parana harvested) =
     Inr [index_obs scene_june, index_obs scene_april]"
    by (simp add: s2_chart_scenes)
  ultimately show ?thesis
    using present frost other ser(1,2) by blast
qed

text \<open>
  C1 as stated fails: for a harvested point and an archive that lists the June scene
  before the April scene, the charted series keeps that order.
\<close>

theorem series_unsorted_counterexample:
  "\<exists>ser. imageCollection (make_chart [scene_june, scene_april] parana harvested) = Inr ser \<and>
         \<not> sorted (map time_start ser)"
  unfolding imageCollection_make_chart s2_ndvi_scenes
  by (simp add: chart_defs harvested_def time_start_def get_prop_def band_def)

text \<open>
  C3. For a point whose category is a frost event the script builds exactly two marker
  observations: one at midnight (UTC) of the event date, 25 May 2021 for "Affected by
  Frost: May 25" and 30 June 2021 for "Affected by Frost: June 30", with marker value 0,
  and one 3600000 milliseconds (one hour) later with marker value 1; the index band of
  both is masked, not zero. They are merged into the series. For every other category the
  series is left as it is: no marker observation is made.
\<close>

theorem frost_marker_synthesis:
  "(fst (classify cornVal frostVal) = ''Affected by Frost: May 25'' \<longrightarrow>
      frostLineCol frostVal =
        [marker_obs 0 (real_of_int (days_from_civil 2021 5 25 * 86400000)),
         marker_obs 1 (real_of_int (days_from_civil 2021 5 25 * 86400000 + 3600000))] \<and>
      combinedCol (Inr col) cornVal frostVal =
        Inr (sort_col ''system:time_start'' (merge (map addFrostMarker col) (frostLineCol frostVal)))) \<and>
   (fst (classify cornVal frostVal) = ''Affected by Frost: June 30'' \<longrightarrow>
      frostLineCol frostVal =
        [marker_obs 0 (real_of_int (days_from_civil 2021 6 30 * 86400000)),
         marker_obs 1 (real_of_int (days_from_civil 2021 6 30 * 86400000 + 3600000))] \<and>
      combinedCol (Inr col) cornVal frostVal =
        Inr (sort_col ''system:time_start'' (merge (map addFrostMarker col) (frostLineCol frostVal)))) \<and>
   (fst (classify cornVal frostVal) \<notin> {''Affected by Frost: May 25'', ''Affected by Frost: June 30''} \<longrightarrow>
      combinedCol s2ndvi cornVal frostVal = s2ndvi)"
proof -
  let ?cat = "fst (classify cornVal frostVal)"
  have may: "frostVal = Num 2 \<and> isFrostEvent cornVal frostVal"
    if "?cat = ''Affected by Frost: May 25''"
    using that
    by (simp add: classify_def isFrostEvent_def isCorn_def strict_eq_def split: if_splits)
  have june: "frostVal = Num 3 \<and> isFrostEvent cornVal frostVal"
    if "?cat = ''Affected by Frost: June 30''"
    using that
    by (simp add: classify_def isFrostEvent_def isCorn_def strict_eq_def split: if_splits)
  have other: "\<not> isFrostEvent cornVal frostVal"
    if "?cat \<notin> {''Affected by Frost: May 25'', ''Affected by Frost: June 30''}"
    using that by (simp add: frost_category)
  have 1: "?cat = ''Affected by Frost: May 25'' \<longrightarrow>
      frostLineCol frostVal =
        [marker_obs 0 (real_of_int (days_from_civil 2021 5 25 * 86400000)),
         marker_obs 1 (real_of_int (days_from_civil 2021 5 25 * 86400000 + 3600000))] \<and>
      combinedCol (Inr col) cornVal frostVal =
        Inr (sort_col ''system:time_start'' (merge (map addFrostMarker col) (frostLineCol frostVal)))"
    using may
    by (auto simp: combinedCol_def frostLineCol_eq marker_obs_def may25_midnight Let_def)
  have 2: "?cat = ''Affected by Frost: June 30'' \<longrightarrow>
      frostLineCol frostVal =
        [marker_obs 0 (real_of_int (days_from_civil 2021 6 30 * 86400000)),
         marker_obs 1 (real_of_int (days_from_civil 2021 6 30 * 86400000 + 3600000))] \<and>
      combinedCol (Inr col) cornVal frostVal =
        Inr (sort_col ''system:time_start'' (merge (map addFrostMarker col) (frostLineCol frostVal)))"
    using june
    by (auto simp: combinedCol_def frostLineCol_eq marker_obs_def june30_midnight Let_def)
  have 3: "?cat \<notin> {''Affected by Frost: May 25'', ''Affected by Frost: June 30''} \<longrightarrow>
      combinedCol s2ndvi cornVal frostVal = s2ndvi"
    using other by (simp add: combinedCol_def)
  from 1 2 3 show ?thesis by blast
qed

theorem frost_marker_synthesis_witness:
  "fst (classify (Num 2) (Num 2)) = ''Affected by Frost: May 25'' \<and>
   frostLineCol (Num 2) = [marker_obs 0 1621900800000, marker_obs 1 1621904400000] \<and>
   fst (classify (Num 2) (Num 3)) = ''Affected by Frost: June 30'' \<and>
   frostLineCol (Num 3) = [marker_obs 0 1625011200000, marker_obs 1 1625014800000] \<and>
   fst (classify (Num 2) (Num 4)) = ''Not Affected'' \<and>
   combinedCol (Inr []) (Num 2) (Num 4) = Inr []"
  using frost_marker_synthesis [of "Num 2" "Num 2" "[]" "Inr []"]
    frost_marker_synthesis [of "Num 2" "Num 3" "[]" "Inr []"]
    frost_marker_synthesis [of "Num 2" "Num 4" "[]" "Inr []"]
  by (simp add: classify_def isCorn_def strict_eq_def may25_midnight june30_midnight)





text \<open>
  C7 (as amended). An image that fails the cloud mask is not removed: it stays in the
  collection with every band masked at the point, its index is masked, and its time stamp
  is kept. The index collection has one observation per image of the queried archive, in
  the same order.
\<close>

theorem cloudy_observation_kept:
  "(s2_bands_present img \<and> \<not> keep_px (cloud_mask (px img ''QA60'')) \<longrightarrow>
      (\<exists>m. maskS2clouds img = Inr m \<and>
           bands m = map (\<lambda>(n, p). (n, None)) (bands img) \<and>
           time_start m = time_start img \<and>
           ndvi m = Inr \<lparr>bands = [(''NDVI'', None)], props = time_props img\<rparr>)) \<and>
   (list_all s2_bands_present (s2_chart archive) \<longrightarrow>
      (\<exists>obs. s2_ndvi archive = Inr obs \<and> length obs = length (s2_chart archive) \<and>
            map time_start obs = map time_start (s2_chart archive)))"
proof -
  have "\<exists>m. maskS2clouds img = Inr m \<and>
           bands m = map (\<lambda>(n, p). (n, None)) (bands img) \<and>
           time_start m = time_start img \<and>
           ndvi m = Inr \<lparr>bands = [(''NDVI'', None)], props = time_props img\<rparr>"
    if present: "s2_bands_present img" and cloudy: "\<not> keep_px (cloud_mask (px img ''QA60''))"
  proof -
    from present have q: "band img ''QA60'' = Inr (px img ''QA60'')"
      by (simp add: s2_bands_present_def band_present)
    from index_obs_pipeline [OF present] obtain m
      where m: "maskS2clouds img = Inr m" and n: "ndvi m = Inr (index_obs img)"
      by blast
    from m maskS2clouds_Inr [OF q] cloudy
    have "bands m = map (\<lambda>(n, p). (n, None)) (bands img) \<and> time_start m = time_start img"
      by auto
    with m n index_obs_cloudy [OF cloudy] show ?thesis
      by simp
  qed
  with s2_ndvi_times [of archive] show ?thesis
    by blast
qed

theorem cloudy_observation_kept_witness:
  "s2_bands_present scene_cloudy \<and> \<not> keep_px (cloud_mask (px scene_cloudy ''QA60'')) \<and>
   (\<exists>m. maskS2clouds scene_cloudy = Inr m \<and>
        bands m = [(''B4'', None), (''B8'', None), (''QA60'', None)] \<and>
        time_start m = Some 1616803200000 \<and>
        ndvi m = Inr \<lparr>bands = [(''NDVI'', None)], props = [(''system:time_start'', 1616803200000)]\<rparr>) \<and>
   list_all s2_bands_present (s2_chart [scene_cloudy]) \<and>
   (\<exists>obs. s2_ndvi [scene_cloudy] = Inr obs \<and> length obs = 1 \<and>
         map time_start obs = [Some 1616803200000])"
  using cloudy_observation_kept [of scene_cloudy "[scene_cloudy]"] cloud_bit_1024
  by (simp add: scene_cloudy_facts)

text \<open>
  C7 as stated fails: an archive of one cloudy scene gives a charted series of one
  observation whose index is masked, not an empty series.
\<close>

theorem cloudy_observation_dropped_counterexample:
  "\<not> keep_px (cloud_mask (px scene_cloudy ''QA60'')) \<and>
   imageCollection (make_chart [scene_cloudy] parana harvested) =
     Inr [\<lparr>bands = [(''NDVI'', None)], props = [(''system:time_start'', 1616803200000)]\<rparr>]"
proof -
  have present: "list_all s2_bands_present (s2_chart [scene_cloudy])"
    by (simp add: scene_cloudy_facts)
  have cloudy: "\<not> keep_px (cloud_mask (px scene_cloudy ''QA60''))"
    by (simp add: scene_cloudy_facts cloud_bit_1024)
  have "s2_ndvi [scene_cloudy] =
      Inr [\<lparr>bands = [(''NDVI'', None)], props = [(''system:time_start'', 1616803200000)]\<rparr>]"
    using s2_ndvi_total [OF present] index_obs_cloudy [OF cloudy]
    by (simp add: scene_cloudy_facts)
  then have "imageCollection (make_chart [scene_cloudy] parana harvested) =
     Inr [\<lparr>bands = [(''NDVI'', None)], props = [(''system:time_start'', 1616803200000)]\<rparr>]"
    unfolding imageCollection_make_chart
    by (simp add: chart_defs harvested_def band_def)
  with cloudy show ?thesis by blast
qed



text \<open>
  C8 (as amended). A raster sample with no data never makes the callback fail. When the
  crop mask is missing (\<^verbatim>\<open>null\<close> or \<^verbatim>\<open>undefined\<close>) the category is "No corn mask" in
  black; when the crop mask is 2 and the frost class is missing the category is "Unknown
  Class" in gray. Neither category is a frost event: the series is left without marker
  observations and only \<open>NDVI\<close> is selected.
\<close>

theorem nodata_classification:
  "(cornVal \<in> {Null, Undefined} \<longrightarrow> classify cornVal frostVal = (''No corn mask'', ''black'')) \<and>
   (frostVal \<in> {Null, Undefined} \<longrightarrow> classify (Num 2) frostVal = (''Unknown Class'', ''gray'')) \<and>
   (\<exists>s'. evaluate_callback archive c (Some result) s = Inr s' \<and>
         chartPanel s' = [ChartWidget (make_chart archive c result),
                          LinkLabel ''See in Google Maps'' c, Button ''Close Chart'']) \<and>
   (fst (classify cornVal frostVal) \<in> {''No corn mask'', ''Unknown Class''} \<longrightarrow>
      \<not> isFrostEvent cornVal frostVal \<and>
      combinedCol s2ndvi cornVal frostVal = s2ndvi \<and>
      bandsToSelect cornVal frostVal = [''NDVI''])"
proof -
  have "\<not> isFrostEvent cornVal frostVal"
    if "fst (classify cornVal frostVal) \<in> {''No corn mask'', ''Unknown Class''}"
    using that by (auto simp: frost_category)
  then show ?thesis
    by (auto simp: classify_def isCorn_def strict_eq_def evaluate_callback_def combinedCol_def
          bandsToSelect_def)
qed

theorem nodata_classification_witness:
  "classify (get_key nodata ''Corn'') (get_key nodata ''Frost'') = (''No corn mask'', ''black'') \<and>
   classify (Num 2) Null = (''Unknown Class'', ''gray'') \<and>
   classify (Num 2) Undefined = (''Unknown Class'', ''gray'') \<and>
   (\<exists>s'. evaluate_callback [] parana (Some nodata) initial_ui = Inr s') \<and>
   combinedCol (Inr []) Null Null = Inr [] \<and>
   combinedCol (Inr []) (Num 2) Null = Inr []"
proof -
  note a = nodata_classification [of Null Null "[]" parana nodata initial_ui "Inr []"]
  note b = nodata_classification [of "Num 2" Null "[]" parana nodata initial_ui "Inr []"]
  note c = nodata_classification [of "Num 2" Undefined "[]" parana nodata initial_ui "Inr []"]
  from a have 1: "classify (get_key nodata ''Corn'') (get_key nodata ''Frost'') =
      (''No corn mask'', ''black'')"
    by (simp add: get_key_def nodata_def)
  from a have 2: "\<exists>s'. evaluate_callback [] parana (Some nodata) initial_ui = Inr s'"
    by blast
  from a 1 have 3: "combinedCol (Inr []) Null Null = Inr []"
    by (simp add: get_key_def nodata_def)
  from b have 4: "classify (Num 2) Null = (''Unknown Class'', ''gray'')"
    by simp
  from b 4 have 5: "combinedCol (Inr []) (Num 2) Null = Inr []"
    by simp
  from c have 6: "classify (Num 2) Undefined = (''Unknown Class'', ''gray'')"
    by simp
  from 1 2 3 4 5 6 show ?thesis by blast
qed

text \<open>
  C8 as stated fails: over no data in both bands the category is "No corn mask" with a
  black line, not "Unknown Class" in gray.
\<close>

theorem nodata_not_unknown_counterexample:
  "classify (get_key nodata ''Corn'') (get_key nodata ''Frost'') \<noteq> (''Unknown Class'', ''gray'') \<and>
   classify (get_key nodata ''Corn'') (get_key nodata ''Frost'') = (''No corn mask'', ''black'') \<and>
   title_status (make_chart [] parana nodata) = ''No corn mask'' \<and>
   series (make_chart [] parana nodata) =
     [\<lparr>color = ''black'', lineWidth = 2, pointSize = 3, targetAxisIndex = 0,
       labelInLegend = ''NDVI''\<rparr>]"
  by (simp add: make_chart_def Let_def seriesOptions_def isFrostEvent_def classify_def isCorn_def
        strict_eq_def get_key_def nodata_def)




text \<open>
  C9. What \<^verbatim>\<open>showTimeSeries\<close> puts into the chart panel (the chart with its series,
  status text and colours) and whether its callback fails depend on the point, the archive
  and the raster only, not on the state of the user interface: two calls with the same
  point give the same chart, also when the second runs in the state the first left.
\<close>

theorem showTimeSeries_deterministic:
  "fst (showTimeSeries s2 frost c s) = fst (showTimeSeries s2 frost c s') \<and>
   chartPanel (snd (showTimeSeries s2 frost c s)) = chartPanel (snd (showTimeSeries s2 frost c s')) \<and>
   chartPanel (snd (showTimeSeries s2 frost c (snd (showTimeSeries s2 frost c s)))) =
     chartPanel (snd (showTimeSeries s2 frost c s))"
  by (simp add: showTimeSeries_chartPanel)

theorem showTimeSeries_deterministic_witness:
  "fst (showTimeSeries (\<lambda>c. [scene_june, scene_april]) (\<lambda>c. Some frost_may) parana initial_ui) = None \<and>
   chartPanel (snd (showTimeSeries (\<lambda>c. [scene_june, scene_april]) (\<lambda>c. Some frost_may) parana
                      (snd (showTimeSeries (\<lambda>c. [scene_june, scene_april]) (\<lambda>c. Some frost_may)
                              parana initial_ui)))) =
     chartPanel (snd (showTimeSeries (\<lambda>c. [scene_june, scene_april]) (\<lambda>c. Some frost_may) parana
                        initial_ui)) \<and>
   chartPanel (snd (showTimeSeries (\<lambda>c. [scene_june, scene_april]) (\<lambda>c. Some frost_may) parana
                      initial_ui)) =
     [ChartWidget (make_chart [scene_june, scene_april] parana frost_may),
      LinkLabel ''See in Google Maps'' parana, Button ''Close Chart'']"
  using showTimeSeries_deterministic [of "\<lambda>c. [scene_june, scene_april]" "\<lambda>c. Some frost_may"
      parana initial_ui initial_ui]
  by (simp add: showTimeSeries_chartPanel)

end
